theory Spec2Isabelle
  imports Main "HOL-Library.Sublist"
begin

section \<open>Data model\<close>

text \<open>
  The loader (\<open>src/index.js\<close> in the repository's \<open>src\<close> directory, and the older
  \<open>index.js\<close> at its root) works on the tree that parse5 builds from the file's text.
  A node is an element (tag name, attribute list, child nodes, location), a text node
  or a comment. A \<open>template\<close> element is a node of its own kind: parse5 keeps what is
  written inside it in a separate content fragment and leaves its \<open>childNodes\<close> empty,
  so dom5's \<open>query\<close> and \<open>queryAll\<close>, which walk \<open>childNodes\<close>, never see that content,
  while \<open>parse5.serialize\<close> writes it. With \<open>locationInfo: true\<close> parse5 stores \<open>__location\<close> on every node it
  read from the text; nodes it made up itself (an implied \<open>html\<close>, \<open>head\<close> or \<open>body\<close>)
  have none, and an element whose end tag is missing has no \<open>endTag\<close> entry.
\<close>

record location =
  line :: int
  col :: int

record element_location = location +
  startTag :: location
  endTag :: "location option"

datatype node =
    Element string "(string \<times> string) list" "node list" "element_location option"
  | Template "(string \<times> string) list" "node list" "element_location option"
  | TextNode string "location option"
  | CommentNode string "location option"

text \<open>What \<open>url.parse\<close> returns, as far as the loader reads it.\<close>

record url =
  protocol :: "string option"
  slashes :: bool

text \<open>A token of \<open>espree.tokenize\<close>: \<open>type\<close>, \<open>value\<close> and \<open>loc.start\<close>.\<close>

record position =
  pline :: int
  pcolumn :: int

record token =
  ttype :: string
  tvalue :: string
  tloc :: "position option"

text \<open>A mapping handed to \<open>SourceMapGenerator.addMapping\<close>.\<close>

record mapping =
  original :: position
  generated :: position
  msource :: string
  mname :: "string option"

text \<open>
  The state of a \<open>SourceMapGenerator\<close>: the mappings in the order of the \<open>addMapping\<close>
  calls, and the contents stored by \<open>setSourceContent\<close> (the library's
  \<open>_sourcesContents\<close>, empty for \<open>null\<close>).
\<close>

record generator =
  mappings :: "mapping list"
  sourcesContents :: "(string \<times> string) list"

text \<open>
  What \<open>toJSON\<close> returns. \<open>sources\<close> and \<open>names\<close> list what the mappings use, \<open>sourcesContent\<close>
  has one entry per listed source (\<open>null\<close> where none was stored) and is missing when
  no content was ever stored. The \<open>mappings\<close> string is read as the list it encodes.
\<close>

record source_map =
  version :: nat
  sources :: "string list"
  names :: "string list"
  json_mappings :: "mapping list"
  sourcesContent :: "string option list option"

datatype error = SyntaxError | TypeError

text \<open>
  The libraries the loader calls and that are not part of the repository: parse5
  (\<open>parse\<close>, \<open>serialize\<close>), html-minifier, espree, and Node's \<open>url\<close> and \<open>path\<close>.
  Every definition below takes them as a parameter. \<open>parse5.serialize(node)\<close> writes the
  children of \<open>node\<close> and reads of the node itself its name only (text below a
  \<open>script\<close> is written as it is, text below a \<open>div\<close> is escaped), so it is given the
  name and the child list. The loader calls it on script elements, on the parent of
  the component node and on the document, never on a template.
\<close>

type_synonym parent = "string \<times> node list"

record lib =
  parse :: "string \<Rightarrow> node list"
  serialize :: "parent \<Rightarrow> string"
  minify :: "string \<Rightarrow> string"
  tokenize :: "string \<Rightarrow> error + token list"
  url_parse :: "string \<Rightarrow> url"
  path_dirname :: "string \<Rightarrow> string"
  path_join :: "string \<Rightarrow> string \<Rightarrow> string"

record options =
  ignoreLinks :: "string list option"
  ignoreLinksFromPartialMatches :: "string list option"
  ignorePathReWrite :: "string list option"

record loader =
  getOptions :: "options option"
  resourcePath :: string

record ProcessHtml =
  content :: string
  opts :: options
  currentFilePath :: string

record fragment =
  source :: string
  lineCount :: int

record emitter =
  em_source :: string
  lineOffset :: int
  sourceMapGenerator :: "generator option"

record retVal =
  ret_source :: string
  sourceMap :: "source_map option"

section \<open>JavaScript and dom5 helpers\<close>

abbreviation NL :: char where "NL \<equiv> CHR 0x0A"
abbreviation SQ :: char where "SQ \<equiv> CHR 0x27"
abbreviation BSL :: char where "BSL \<equiv> CHR 0x5C"

text \<open>\<open>x || []\<close> and \<open>x || ''\<close> on a value that may be missing.\<close>

definition or_empty :: "'a list option \<Rightarrow> 'a list" where
  "or_empty x = (case x of None \<Rightarrow> [] | Some v \<Rightarrow> v)"

text \<open>\<open>String.prototype.indexOf\<close>: the first index where the pattern starts, or -1.\<close>

fun indexOf :: "string \<Rightarrow> string \<Rightarrow> int" where
  "indexOf [] p = (if p = [] then 0 else -1)"
| "indexOf (c # cs) p =
     (if take (length p) (c # cs) = p then 0
      else (let r = indexOf cs p in if r < 0 then -1 else r + 1))"

text \<open>\<open>Array.prototype.indexOf\<close>.\<close>

fun arr_indexOf :: "'a list \<Rightarrow> 'a \<Rightarrow> int" where
  "arr_indexOf [] x = -1"
| "arr_indexOf (y # ys) x =
     (if y = x then 0 else (let r = arr_indexOf ys x in if r < 0 then -1 else r + 1))"

definition lower_char :: "char \<Rightarrow> char" where
  "lower_char c =
     (let n = (of_char c :: nat) in if 65 \<le> n \<and> n \<le> 90 then char_of (n + 32) else c)"

definition toLowerCase :: "string \<Rightarrow> string" where
  "toLowerCase s = map lower_char s"

text \<open>dom5's \<open>predicates.hasTagName\<close>; \<open>AND\<close> of a single predicate is that predicate.\<close>

fun hasTagName :: "string \<Rightarrow> node \<Rightarrow> bool" where
  "hasTagName name (Element t a cs l) = (toLowerCase t = toLowerCase name)"
| "hasTagName name (Template a tc l) = (toLowerCase ''template'' = toLowerCase name)"
| "hasTagName name n = False"

definition domPred :: "node \<Rightarrow> bool" where
  "domPred = hasTagName ''dom-module''"

definition linkPred :: "node \<Rightarrow> bool" where
  "linkPred = hasTagName ''link''"

definition scriptsPred :: "node \<Rightarrow> bool" where
  "scriptsPred = hasTagName ''script''"

text \<open>dom5's \<open>getAttribute\<close>: the value of the first attribute of that name, or null.\<close>

fun getAttribute :: "node \<Rightarrow> string \<Rightarrow> string option" where
  "getAttribute (Element t a cs l) name = map_of a name"
| "getAttribute (Template a tc l) name = map_of a name"
| "getAttribute n name = None"

text \<open>
  dom5's \<open>queryAll\<close>: the matching nodes in document order (a node before its
  descendants), collected before the caller touches the tree. The walk follows
  \<open>childNodes\<close>, so it stops at a template.
\<close>

fun queryAll_node :: "(node \<Rightarrow> bool) \<Rightarrow> node \<Rightarrow> node list" where
  "queryAll_node p (Element t a cs l) =
     (if p (Element t a cs l) then [Element t a cs l] else []) @ concat (map (queryAll_node p) cs)"
| "queryAll_node p n = (if p n then [n] else [])"

definition queryAll :: "node list \<Rightarrow> (node \<Rightarrow> bool) \<Rightarrow> node list" where
  "queryAll doc p = concat (map (queryAll_node p) doc)"

text \<open>
  dom5's \<open>removeFakeRootElements\<close>: every \<open>html\<close>, \<open>head\<close> or \<open>body\<close> element without a
  location is replaced by its children. The content of a template holds no such
  element (the parser drops these tags there).
\<close>

definition fakeRoot :: "node \<Rightarrow> bool" where
  "fakeRoot n = (case n of
       Element t a cs l \<Rightarrow> l = None \<and> toLowerCase t \<in> {''html'', ''head'', ''body''}
     | _ \<Rightarrow> False)"

fun unwrapFake :: "node \<Rightarrow> node list" where
  "unwrapFake (Element t a cs l) =
     (let cs' = concat (map unwrapFake cs)
      in if fakeRoot (Element t a cs l) then cs' else [Element t a cs' l])"
| "unwrapFake n = [n]"

definition removeFakeRootElements :: "node list \<Rightarrow> node list" where
  "removeFakeRootElements doc = concat (map unwrapFake doc)"

text \<open>
  dom5's \<open>remove\<close>, called on every node of a \<open>queryAll\<close> result that passes a test:
  each such node leaves its parent's child list, with everything below it. The
  content of a template was not searched and stays as it is.
\<close>

fun strip :: "(node \<Rightarrow> bool) \<Rightarrow> node \<Rightarrow> node" where
  "strip p (Element t a cs l) = Element t a (map (strip p) (filter (\<lambda>c. \<not> p c) cs)) l"
| "strip p n = n"

definition removeNodes :: "(node \<Rightarrow> bool) \<Rightarrow> node list \<Rightarrow> node list" where
  "removeNodes p doc = map (strip p) (filter (\<lambda>c. \<not> p c) doc)"

text \<open>
  dom5's \<open>query\<close> followed by \<open>.parentNode\<close>: the parent (name and child list) of the
  first match in document order, or \<open>None\<close> when nothing matches. \<open>par\<close> is the node
  whose children are being walked.
\<close>

fun query_parent :: "(node \<Rightarrow> bool) \<Rightarrow> parent \<Rightarrow> node list \<Rightarrow> parent option" where
  "query_parent p par [] = None"
| "query_parent p par (Element t a cs l # rest) =
     (if p (Element t a cs l) then Some par
      else (case query_parent p (t, cs) cs of
              Some r \<Rightarrow> Some r
            | None \<Rightarrow> query_parent p par rest))"
| "query_parent p par (n # rest) =
     (if p n then Some par else query_parent p par rest)"

text \<open>
  \<open>node.nodeName\<close>, \<open>node.childNodes\<close> and \<open>node.__location\<close> (its \<open>line\<close> and \<open>col\<close>);
  the document is the parent \<open>#document\<close> of its top-level nodes.
\<close>

fun nodeName :: "node \<Rightarrow> string" where
  "nodeName (Element t a cs l) = t"
| "nodeName (Template a tc l) = ''template''"
| "nodeName (TextNode s l) = ''#text''"
| "nodeName (CommentNode s l) = ''#comment''"

fun childNodes :: "node \<Rightarrow> node list" where
  "childNodes (Element t a cs l) = cs"
| "childNodes n = []"

definition as_parent :: "node \<Rightarrow> parent" where
  "as_parent n = (nodeName n, childNodes n)"

definition document :: "node list \<Rightarrow> parent" where
  "document doc = (''#document'', doc)"

fun node_location :: "node \<Rightarrow> location option" where
  "node_location (Element t a cs l) =
     (case l of None \<Rightarrow> None | Some x \<Rightarrow> Some \<lparr>line = line x, col = col x\<rparr>)"
| "node_location (Template a tc l) =
     (case l of None \<Rightarrow> None | Some x \<Rightarrow> Some \<lparr>line = line x, col = col x\<rparr>)"
| "node_location (TextNode s l) = l"
| "node_location (CommentNode s l) = l"

fun elem_location :: "node \<Rightarrow> element_location option" where
  "elem_location (Element t a cs l) = l"
| "elem_location (Template a tc l) = l"
| "elem_location n = None"

text \<open>JavaScript's truth test on a string that may be null.\<close>

definition truthy :: "string option \<Rightarrow> bool" where
  "truthy x = (case x of None \<Rightarrow> False | Some s \<Rightarrow> s \<noteq> [])"

text \<open>A \<open>forEach\<close> whose body may throw: the first exception ends the loop.\<close>

fun forEach :: "('s \<Rightarrow> 'a \<Rightarrow> error + 's) \<Rightarrow> 's \<Rightarrow> 'a list \<Rightarrow> error + 's" where
  "forEach f s [] = Inr s"
| "forEach f s (x # xs) = (case f s x of Inl e \<Rightarrow> Inl e | Inr s' \<Rightarrow> forEach f s' xs)"

section \<open>The source-map generator\<close>

definition new_generator :: generator where
  "new_generator = \<lparr>mappings = [], sourcesContents = []\<rparr>"

definition addMapping :: "generator \<Rightarrow> mapping \<Rightarrow> generator" where
  "addMapping g m = g\<lparr>mappings := mappings g @ [m]\<rparr>"

definition setSourceContent :: "generator \<Rightarrow> string \<Rightarrow> string \<Rightarrow> generator" where
  "setSourceContent g file text =
     g\<lparr>sourcesContents := (file, text) # filter (\<lambda>e. fst e \<noteq> file) (sourcesContents g)\<rparr>"

text \<open>
  The library's \<open>ArraySet\<close>: \<open>addMapping\<close> adds a mapping's source and name to the sets
  \<open>_sources\<close> and \<open>_names\<close> unless they are members already, so each set lists its
  members in the order of their first use.
\<close>

definition array_add :: "'a list \<Rightarrow> 'a \<Rightarrow> 'a list" where
  "array_add s x = (if x \<in> set s then s else s @ [x])"

definition array_set :: "'a list \<Rightarrow> 'a list" where
  "array_set xs = foldl array_add [] xs"

text \<open>
  \<open>toJSON\<close>: the sources and names of the mappings, the mappings, and for every listed
  source the content stored for it.
\<close>

definition toJSON :: "generator \<Rightarrow> source_map" where
  "toJSON g =
     (let srcs = array_set (map msource (mappings g))
      in \<lparr>version = 3,
          sources = srcs,
          names = array_set (List.map_filter mname (mappings g)),
          json_mappings = mappings g,
          sourcesContent =
            (if sourcesContents g = [] then None
             else Some (map (map_of (sourcesContents g)) srcs))\<rparr>)"

section \<open>The loader of \<open>src/index.js\<close>\<close>

definition new_ProcessHtml :: "string \<Rightarrow> loader \<Rightarrow> ProcessHtml" where
  "new_ProcessHtml c l =
     \<lparr>content = c,
      opts = (case getOptions l of
                None \<Rightarrow> \<lparr>ignoreLinks = None, ignoreLinksFromPartialMatches = None,
                          ignorePathReWrite = None\<rparr>
              | Some x \<Rightarrow> x),
      currentFilePath = resourcePath l\<rparr>"

text \<open>The template literal \<open>`\nimport '${path}';\n`\<close>.\<close>

definition import_stmt :: "string \<Rightarrow> string" where
  "import_stmt path = [NL] @ ''import '' @ [SQ] @ path @ [SQ] @ '';'' @ [NL]"

subsection \<open>\<open>links\<close>\<close>

text \<open>
  The value of the local \<open>path\<close> of the loop body, as a function of \<open>href\<close>: it stays
  \<open>''\<close> for an empty \<open>href\<close>.
\<close>

definition link_path :: "lib \<Rightarrow> ProcessHtml \<Rightarrow> string \<Rightarrow> string" where
  "link_path L P href =
     (if href \<noteq> [] then
        (let checkIgnorePaths =
               filter (\<lambda>ignorePath. indexOf href ignorePath \<ge> 0)
                 (or_empty (ignorePathReWrite (opts P)))
         in if length checkIgnorePaths = 0
            then path_join L (path_dirname L (currentFilePath P)) href
            else href)
      else [])"

definition links_step :: "lib \<Rightarrow> ProcessHtml \<Rightarrow> fragment \<Rightarrow> node \<Rightarrow> fragment" where
  "links_step L P acc linkNode =
     (let href = or_empty (getAttribute linkNode ''href'');
          path = link_path L P href
      in if href \<noteq> [] then
           (let ignoredFromPartial =
                  filter (\<lambda>partial. indexOf href partial \<ge> 0)
                    (or_empty (ignoreLinksFromPartialMatches (opts P)))
            in if arr_indexOf (or_empty (ignoreLinks (opts P))) href < 0
                  \<and> length ignoredFromPartial = 0
               then acc\<lparr>source := source acc @ import_stmt path, lineCount := lineCount acc + 2\<rparr>
               else acc)
         else acc)"

definition links :: "lib \<Rightarrow> ProcessHtml \<Rightarrow> fragment" where
  "links L P =
     (let doc = removeFakeRootElements (parse L (content P));
          links = queryAll doc linkPred
      in foldl (links_step L P) \<lparr>source = [], lineCount = 0\<rparr> links)"

subsection \<open>\<open>domModule\<close>\<close>

text \<open>The test of the first loop of \<open>domModule\<close>: the script node is removed.\<close>

definition script_removed :: "lib \<Rightarrow> node \<Rightarrow> bool" where
  "script_removed L scriptNode =
     (let src = or_empty (getAttribute scriptNode ''src'')
      in if src \<noteq> [] then
           (let parseSrc = url_parse L src
            in \<not> truthy (protocol parseSrc) \<or> \<not> slashes parseSrc)
         else True)"

text \<open>
  The value of \<open>html\<close>, as name and child list, after both removal loops. \<open>query\<close> runs
  before the loops and \<open>.parentNode\<close> is read after them; the links are collected once the
  scripts are gone. parse5 gives a \<open>script\<close> element text children only and a \<open>link\<close>
  element none, so a removed node never holds the component node.
\<close>

definition domModule_html :: "lib \<Rightarrow> ProcessHtml \<Rightarrow> parent" where
  "domModule_html L P =
     (let doc = removeFakeRootElements (parse L (content P));
          domModule = query_parent domPred (document doc) doc;
          html = (case domModule of Some parentNode \<Rightarrow> parentNode | None \<Rightarrow> document doc)
      in (fst html,
          removeNodes linkPred
            (removeNodes (\<lambda>n. scriptsPred n \<and> script_removed L n) (snd html))))"

text \<open>\<open>minimized.replace(/'/g, "\\'")\<close>.\<close>

definition escapeQuotes :: "string \<Rightarrow> string" where
  "escapeQuotes s = concat (map (\<lambda>c. if c = SQ then [BSL, SQ] else [c]) s)"

definition register_source :: "string \<Rightarrow> string" where
  "register_source minimized =
     [NL] @ ''const RegisterHtmlTemplate = require('' @ [SQ]
       @ ''polymer-webpack-loader/register-html-template'' @ [SQ] @ '');'' @ [NL]
       @ ''RegisterHtmlTemplate.register('' @ [SQ] @ escapeQuotes minimized @ [SQ] @ '');''
       @ [NL]"

definition toBody_source :: "string \<Rightarrow> string" where
  "toBody_source minimized =
     [NL] @ ''const RegisterHtmlTemplate = require('' @ [SQ]
       @ ''polymer-webpack-loader/register-html-template'' @ [SQ] @ '');'' @ [NL]
       @ ''RegisterHtmlTemplate.toBody('' @ [SQ] @ escapeQuotes minimized @ [SQ] @ '');''
       @ [NL]"

definition domModule :: "lib \<Rightarrow> ProcessHtml \<Rightarrow> fragment" where
  "domModule L P =
     (let doc = removeFakeRootElements (parse L (content P));
          domModule = query_parent domPred (document doc) doc;
          minimized = minify L (serialize L (domModule_html L P))
      in if minimized \<noteq> [] then
           (if domModule \<noteq> None
            then \<lparr>source = register_source minimized, lineCount = 3\<rparr>
            else \<lparr>source = toBody_source minimized, lineCount = 3\<rparr>)
         else \<lparr>source = [], lineCount = 0\<rparr>)"

subsection \<open>\<open>scripts\<close>\<close>

text \<open>The body of \<open>tokens.forEach\<close>: a token without \<open>loc\<close> adds nothing.\<close>

definition token_step ::
  "ProcessHtml \<Rightarrow> int \<Rightarrow> int \<Rightarrow> int \<Rightarrow> generator \<Rightarrow> token \<Rightarrow> generator" where
  "token_step P currentScriptLineOffset firstLineCharOffset curLineOffset g tok =
     (case tloc tok of
        None \<Rightarrow> g
      | Some start \<Rightarrow>
          addMapping g
            \<lparr>original =
               \<lparr>pline = pline start + currentScriptLineOffset,
                pcolumn = pcolumn start + (if pline start = 1 then firstLineCharOffset else 0)\<rparr>,
             generated = \<lparr>pline = pline start + curLineOffset, pcolumn = pcolumn start\<rparr>,
             msource = currentFilePath P,
             mname = (if ttype tok = ''Identifier'' then Some (tvalue tok) else None)\<rparr>)"

text \<open>
  The body of \<open>scripts.forEach\<close>. Reading \<open>childNodes[0].__location.line\<close> of a script
  without a child, or \<open>__location.endTag.line\<close> of a script without an end tag, throws
  a TypeError; a syntax error of the tokenizer is thrown before either.
\<close>

definition scripts_step :: "lib \<Rightarrow> ProcessHtml \<Rightarrow> emitter \<Rightarrow> node \<Rightarrow> error + emitter" where
  "scripts_step L P st scriptNode =
     (let src = or_empty (getAttribute scriptNode ''src'')
      in if src \<noteq> [] then
           (let parseSrc = url_parse L src
            in if \<not> truthy (protocol parseSrc) \<or> \<not> slashes parseSrc then
                 (let path = path_join L (path_dirname L (currentFilePath P)) src
                  in Inr (st\<lparr>em_source := em_source st @ import_stmt path,
                             lineOffset := lineOffset st + 2\<rparr>))
               else Inr st)
         else
           (let scriptContents = serialize L (as_parent scriptNode);
                g = (case sourceMapGenerator st of None \<Rightarrow> new_generator | Some g' \<Rightarrow> g')
            in case tokenize L scriptContents of
                 Inl e \<Rightarrow> Inl e
               | Inr tokens \<Rightarrow>
                  (case childNodes scriptNode of
                     [] \<Rightarrow> Inl TypeError
                   | c # cs \<Rightarrow>
                      (case node_location c of
                         None \<Rightarrow> Inl TypeError
                       | Some cl \<Rightarrow>
                          (let currentScriptLineOffset = line cl - 1;
                               firstLineCharOffset = col cl;
                               g1 = foldl (token_step P currentScriptLineOffset
                                             firstLineCharOffset (lineOffset st)) g tokens
                           in case elem_location scriptNode of
                                None \<Rightarrow> Inl TypeError
                              | Some l \<Rightarrow>
                                 (case endTag l of
                                    None \<Rightarrow> Inl TypeError
                                  | Some e \<Rightarrow>
                                     Inr (st\<lparr>em_source :=
                                                em_source st @ [NL] @ scriptContents @ [NL],
                                              lineOffset :=
                                                lineOffset st + (2 + (line e - line (startTag l))),
                                              sourceMapGenerator := Some g1\<rparr>)))))))"

definition scripts :: "lib \<Rightarrow> ProcessHtml \<Rightarrow> string \<Rightarrow> int \<Rightarrow> error + retVal" where
  "scripts L P initialSource initialLineOffset =
     (let doc = removeFakeRootElements (parse L (content P));
          scripts = queryAll doc scriptsPred
      in case forEach (scripts_step L P)
                \<lparr>em_source = initialSource, lineOffset = initialLineOffset,
                 sourceMapGenerator = None\<rparr> scripts of
           Inl e \<Rightarrow> Inl e
         | Inr st \<Rightarrow>
            Inr \<lparr>ret_source = em_source st,
                 sourceMap =
                   (case sourceMapGenerator st of
                      None \<Rightarrow> None
                    | Some g \<Rightarrow>
                        Some (toJSON (setSourceContent g (currentFilePath P) (content P))))\<rparr>)"

subsection \<open>\<open>process\<close> and the exported function\<close>

definition process :: "lib \<Rightarrow> ProcessHtml \<Rightarrow> error + retVal" where
  "process L P =
     (let links = links L P;
          doms = domModule L P
      in scripts L P (source links @ source doms) (lineCount links + lineCount doms))"

text \<open>
  The exported function: what it hands to \<open>this.callback\<close> after the null error
  argument, or the exception that leaves it.
\<close>

definition entry :: "lib \<Rightarrow> string \<Rightarrow> loader \<Rightarrow> error + (string \<times> source_map option)" where
  "entry L c l =
     (case process L (new_ProcessHtml c l) of
        Inl e \<Rightarrow> Inl e
      | Inr results \<Rightarrow> Inr (ret_source results, sourceMap results))"

section \<open>The older loader of the root \<open>index.js\<close>\<close>

text \<open>
  The file at the repository's root is the loader before source maps: its passes
  return text only, it knows \<open>ignoreLinks\<close> and \<open>ignorePathReWrite\<close> but no partial
  matches, and it names the package \<open>component-loader\<close>.
\<close>

definition legacy_links_step :: "lib \<Rightarrow> ProcessHtml \<Rightarrow> string \<Rightarrow> node \<Rightarrow> string" where
  "legacy_links_step L P returnValue linkNode =
     (let href = or_empty (getAttribute linkNode ''href'');
          path = link_path L P href
      in if href \<noteq> [] then
           (if arr_indexOf (or_empty (ignoreLinks (opts P))) href < 0
            then returnValue @ import_stmt path
            else returnValue)
         else returnValue)"

definition legacy_links :: "lib \<Rightarrow> ProcessHtml \<Rightarrow> string" where
  "legacy_links L P =
     (let doc = removeFakeRootElements (parse L (content P));
          links = queryAll doc linkPred
      in foldl (legacy_links_step L P) [] links)"

definition legacy_register_source :: "string \<Rightarrow> string" where
  "legacy_register_source minimized =
     [NL] @ ''const RegisterHtmlTemplate = require('' @ [SQ]
       @ ''component-loader/register-html-template'' @ [SQ] @ '');'' @ [NL]
       @ ''RegisterHtmlTemplate.register('' @ [SQ] @ escapeQuotes minimized @ [SQ] @ '');''
       @ [NL]"

definition legacy_toBody_source :: "string \<Rightarrow> string" where
  "legacy_toBody_source minimized =
     [NL] @ ''const RegisterHtmlTemplate = require('' @ [SQ]
       @ ''component-loader/register-html-template'' @ [SQ] @ '');'' @ [NL]
       @ ''RegisterHtmlTemplate.toBody('' @ [SQ] @ escapeQuotes minimized @ [SQ] @ '');''
       @ [NL]"

definition legacy_domModule :: "lib \<Rightarrow> ProcessHtml \<Rightarrow> string" where
  "legacy_domModule L P =
     (let doc = removeFakeRootElements (parse L (content P));
          domModule = query_parent domPred (document doc) doc;
          minimized = minify L (serialize L (domModule_html L P))
      in if minimized \<noteq> [] then
           (if domModule \<noteq> None then legacy_register_source minimized
            else legacy_toBody_source minimized)
         else [])"

definition legacy_scripts_step :: "lib \<Rightarrow> ProcessHtml \<Rightarrow> string \<Rightarrow> node \<Rightarrow> string" where
  "legacy_scripts_step L P returnValue scriptNode =
     (let src = or_empty (getAttribute scriptNode ''src'')
      in if src \<noteq> [] then
           (let parseSrc = url_parse L src
            in if \<not> truthy (protocol parseSrc) \<or> \<not> slashes parseSrc then
                 (let path = path_join L (path_dirname L (currentFilePath P)) src
                  in returnValue @ import_stmt path)
               else returnValue)
         else returnValue @ [NL] @ serialize L (as_parent scriptNode) @ [NL])"

definition legacy_scripts :: "lib \<Rightarrow> ProcessHtml \<Rightarrow> string" where
  "legacy_scripts L P =
     (let doc = removeFakeRootElements (parse L (content P));
          scripts = queryAll doc scriptsPred
      in foldl (legacy_scripts_step L P) [] scripts)"

definition legacy_process :: "lib \<Rightarrow> ProcessHtml \<Rightarrow> string" where
  "legacy_process L P =
     (let links = legacy_links L P;
          doms = legacy_domModule L P;
          scripts = legacy_scripts L P
      in links @ doms @ scripts)"

section \<open>Predicates on trees and script nodes\<close>








text \<open>
  The script nodes at which the body of \<open>scripts.forEach\<close> does not throw: every node
  with a \<open>src\<close>, and an inline script whose text the tokenizer accepts, whose first
  child exists and has a location, and whose end tag has one.
\<close>

definition readable_script :: "lib \<Rightarrow> node \<Rightarrow> bool" where
  "readable_script L n =
     (or_empty (getAttribute n ''src'') = [] \<longrightarrow>
        \<not> isl (tokenize L (serialize L (as_parent n)))
        \<and> (case childNodes n of [] \<Rightarrow> False | c # cs \<Rightarrow> node_location c \<noteq> None)
        \<and> (case elem_location n of None \<Rightarrow> False | Some l \<Rightarrow> endTag l \<noteq> None))"

section \<open>The libraries on example documents\<close>

text \<open>
  The theorems below hold for every choice of the libraries. To run the passes on
  concrete documents, this section fixes one: a serializer for elements, comments and
  text without \<open>&\<close>, \<open><\<close> or \<open>>\<close>; a minifier that returns its input (html-minifier on
  markup without white space, comments or styles); a tokenizer for words, numbers and one-character
  punctuators; the scheme and double-slash test of \<open>url.parse\<close>; POSIX \<open>dirname\<close> and
  \<open>join\<close> on paths without dot segments; and the trees parse5 builds for the example
  documents, with its one-based \<open>line\<close> and \<open>col\<close>.
\<close>

abbreviation DQ :: char where "DQ \<equiv> CHR 0x22"

fun example_serialize_node :: "node \<Rightarrow> string" where
  "example_serialize_node (Element t a cs l) =
     ''<'' @ t @ concat (map (\<lambda>kv. '' '' @ fst kv @ ''='' @ [DQ] @ snd kv @ [DQ]) a) @ ''>''
       @ (if t \<in> {''link'', ''meta'', ''br'', ''img'', ''input'', ''hr''} then []
          else concat (map example_serialize_node cs) @ ''</'' @ t @ ''>'')"
| "example_serialize_node (Template a tc l) =
     ''<template'' @ concat (map (\<lambda>kv. '' '' @ fst kv @ ''='' @ [DQ] @ snd kv @ [DQ]) a) @ ''>''
       @ concat (map example_serialize_node tc) @ ''</template>''"
| "example_serialize_node (TextNode s l) = s"
| "example_serialize_node (CommentNode s l) = ''<!--'' @ s @ ''-->''"

definition example_serialize :: "parent \<Rightarrow> string" where
  "example_serialize par = concat (map example_serialize_node (snd par))"

definition word_char :: "char \<Rightarrow> bool" where
  "word_char c = (c \<in> set ''abcdefghijklmnopqrstuvwxyzABCDEFGHIJKLMNOPQRSTUVWXYZ0123456789_$'')"

definition punctuator_char :: "char \<Rightarrow> bool" where
  "punctuator_char c = (c \<in> set ''=;(){}[],.+-*/<>!?:&|'')"

text \<open>
  One pass from the right: a word character joins the word that starts in the next
  column, if there is one. Words carry the provisional type \<open>Word\<close>.
\<close>

fun example_lex :: "int \<Rightarrow> int \<Rightarrow> string \<Rightarrow> error + token list" where
  "example_lex l c [] = Inr []"
| "example_lex l c (x # xs) =
     (if x = NL then example_lex (l + 1) 0 xs
      else if x = CHR '' '' then example_lex l (c + 1) xs
      else (case example_lex l (c + 1) xs of
              Inl e \<Rightarrow> Inl e
            | Inr ts \<Rightarrow>
               if word_char x then
                 (case ts of
                    [] \<Rightarrow> Inr [\<lparr>ttype = ''Word'', tvalue = [x],
                                tloc = Some \<lparr>pline = l, pcolumn = c\<rparr>\<rparr>]
                  | t # ts' \<Rightarrow>
                     if ttype t = ''Word'' \<and> tloc t = Some \<lparr>pline = l, pcolumn = c + 1\<rparr>
                     then Inr (\<lparr>ttype = ''Word'', tvalue = x # tvalue t,
                                tloc = Some \<lparr>pline = l, pcolumn = c\<rparr>\<rparr> # ts')
                     else Inr (\<lparr>ttype = ''Word'', tvalue = [x],
                                tloc = Some \<lparr>pline = l, pcolumn = c\<rparr>\<rparr> # t # ts'))
               else if punctuator_char x then
                 Inr (\<lparr>ttype = ''Punctuator'', tvalue = [x],
                       tloc = Some \<lparr>pline = l, pcolumn = c\<rparr>\<rparr> # ts)
               else Inl SyntaxError))"

definition classify_word :: "token \<Rightarrow> token" where
  "classify_word t =
     (if ttype t \<noteq> ''Word'' then t
      else if tvalue t \<in> {''var'', ''let'', ''const'', ''function'', ''return'', ''import''}
        then t\<lparr>ttype := ''Keyword''\<rparr>
      else if hd (tvalue t) \<in> set ''0123456789'' then t\<lparr>ttype := ''Numeric''\<rparr>
      else t\<lparr>ttype := ''Identifier''\<rparr>)"

definition example_tokenize :: "string \<Rightarrow> error + token list" where
  "example_tokenize s =
     (case example_lex 1 0 s of Inl e \<Rightarrow> Inl e | Inr ts \<Rightarrow> Inr (map classify_word ts))"

definition scheme_char :: "char \<Rightarrow> bool" where
  "scheme_char c = (c \<in> set ''abcdefghijklmnopqrstuvwxyzABCDEFGHIJKLMNOPQRSTUVWXYZ0123456789.+-'')"

definition example_url_parse :: "string \<Rightarrow> url" where
  "example_url_parse s =
     (let proto = takeWhile scheme_char s;
          rest = dropWhile scheme_char s
      in if proto \<noteq> [] \<and> take 1 rest = '':''
         then \<lparr>protocol = Some (toLowerCase proto @ '':''),
               slashes = (take 2 (drop 1 rest) = ''//'')\<rparr>
         else \<lparr>protocol = None, slashes = False\<rparr>)"

definition example_dirname :: "string \<Rightarrow> string" where
  "example_dirname s =
     (let d = rev (drop 1 (dropWhile (\<lambda>c. c \<noteq> CHR ''/'') (rev s)))
      in if d \<noteq> [] then d else if take 1 s = ''/'' then ''/'' else ''.'')"

definition example_join :: "string \<Rightarrow> string \<Rightarrow> string" where
  "example_join a b = a @ ''/'' @ b"

definition at :: "int \<Rightarrow> int \<Rightarrow> location" where
  "at l c = \<lparr>line = l, col = c\<rparr>"

definition tags_at :: "int \<Rightarrow> int \<Rightarrow> location option \<Rightarrow> element_location option" where
  "tags_at l c e = Some \<lparr>line = l, col = c, startTag = at l c, endTag = e\<rparr>"

text \<open>
  \<open><link rel="import" href="a.html"><dom-module id="x"><script>var a=1;</script></dom-module>\<close>
\<close>

definition component_html :: string where
  "component_html =
     ''<link rel='' @ [DQ] @ ''import'' @ [DQ] @ '' href='' @ [DQ] @ ''a.html'' @ [DQ] @ ''>''
     @ ''<dom-module id='' @ [DQ] @ ''x'' @ [DQ] @ ''>''
     @ ''<script>var a=1;</script></dom-module>''"

definition component_tree :: "node list" where
  "component_tree =
     [Element ''html'' []
        [Element ''head'' []
           [Element ''link'' [(''rel'', ''import''), (''href'', ''a.html'')] [] (tags_at 1 1 None)]
           None,
         Element ''body'' []
           [Element ''dom-module'' [(''id'', ''x'')]
              [Element ''script'' [] [TextNode ''var a=1;'' (Some (at 1 61))]
                 (tags_at 1 53 (Some (at 1 69)))]
              (tags_at 1 34 (Some (at 1 78)))]
           None]
        None]"

text \<open>
  A page without a component node: a link, an external script, a local script and an
  inline script of two lines.
  \<open><link rel="import" href="x/y.html"><script src="https://cdn.example.com/a.js"></script>\<close>
  \<open><script src="b.js"></script><script>var a;\<close> (line break) \<open>b();</script>\<close>
\<close>

definition page_script :: string where
  "page_script = ''var a;'' @ [NL] @ ''b();''"

definition page_html :: string where
  "page_html =
     ''<link rel='' @ [DQ] @ ''import'' @ [DQ] @ '' href='' @ [DQ] @ ''x/y.html'' @ [DQ] @ ''>''
     @ ''<script src='' @ [DQ] @ ''https://cdn.example.com/a.js'' @ [DQ] @ ''></script>''
     @ ''<script src='' @ [DQ] @ ''b.js'' @ [DQ] @ ''></script>''
     @ ''<script>'' @ page_script @ ''</script>''"

definition cdn_script :: node where
  "cdn_script =
     Element ''script'' [(''src'', ''https://cdn.example.com/a.js'')] []
       (tags_at 1 36 (Some (at 1 79)))"

definition local_script :: node where
  "local_script = Element ''script'' [(''src'', ''b.js'')] [] (tags_at 1 88 (Some (at 1 107)))"

definition inline_script :: node where
  "inline_script =
     Element ''script'' [] [TextNode page_script (Some (at 1 124))]
       (tags_at 1 116 (Some (at 2 5)))"

definition page_link :: node where
  "page_link =
     Element ''link'' [(''rel'', ''import''), (''href'', ''x/y.html'')] [] (tags_at 1 1 None)"

definition page_tree :: "node list" where
  "page_tree =
     [Element ''html'' []
        [Element ''head'' [] [page_link, cdn_script, local_script, inline_script] None,
         Element ''body'' [] [] None]
        None]"

text \<open>
  A component node below a \<open>div\<close>, followed by an external script.
  \<open><div><dom-module id="x"></dom-module></div><script src="https://cdn.example.com/a.js"></script>\<close>
\<close>

definition nested_html :: string where
  "nested_html =
     ''<div><dom-module id='' @ [DQ] @ ''x'' @ [DQ] @ ''></dom-module></div>''
     @ ''<script src='' @ [DQ] @ ''https://cdn.example.com/a.js'' @ [DQ] @ ''></script>''"

definition nested_script :: node where
  "nested_script =
     Element ''script'' [(''src'', ''https://cdn.example.com/a.js'')] []
       (tags_at 1 44 (Some (at 1 87)))"

definition nested_tree :: "node list" where
  "nested_tree =
     [Element ''html'' []
        [Element ''head'' [] [] None,
         Element ''body'' []
           [Element ''div'' []
              [Element ''dom-module'' [(''id'', ''x'')] [] (tags_at 1 6 (Some (at 1 25)))]
              (tags_at 1 1 (Some (at 1 38))),
            nested_script]
           None]
        None]"

text \<open>An inline script without text: \<open><script></script>\<close>.\<close>

definition empty_script_html :: string where
  "empty_script_html = ''<script></script>''"

definition empty_script_tree :: "node list" where
  "empty_script_tree =
     [Element ''html'' []
        [Element ''head'' [] [Element ''script'' [] [] (tags_at 1 1 (Some (at 1 9)))] None,
         Element ''body'' [] [] None]
        None]"

text \<open>An inline script with an empty \<open>src\<close>: \<open><script src="">var a=1;</script>\<close>.\<close>

definition empty_src_html :: string where
  "empty_src_html = ''<script src='' @ [DQ, DQ] @ ''>var a=1;</script>''"

definition empty_src_script :: node where
  "empty_src_script =
     Element ''script'' [(''src'', [])] [TextNode ''var a=1;'' (Some (at 1 16))]
       (tags_at 1 1 (Some (at 1 24)))"

definition empty_src_tree :: "node list" where
  "empty_src_tree =
     [Element ''html'' []
        [Element ''head'' [] [empty_src_script] None,
         Element ''body'' [] [] None]
        None]"

text \<open>An inline script whose end tag is missing: \<open><script>var a=1;\<close>.\<close>

definition unclosed_script_html :: string where
  "unclosed_script_html = ''<script>var a=1;''"

definition unclosed_script_tree :: "node list" where
  "unclosed_script_tree =
     [Element ''html'' []
        [Element ''head'' []
           [Element ''script'' [] [TextNode ''var a=1;'' (Some (at 1 9))] (tags_at 1 1 None)]
           None,
         Element ''body'' [] [] None]
        None]"

text \<open>A document that is one link: \<open><link rel="import" href="a.html">\<close>.\<close>

definition link_only_html :: string where
  "link_only_html =
     ''<link rel='' @ [DQ] @ ''import'' @ [DQ] @ '' href='' @ [DQ] @ ''a.html'' @ [DQ] @ ''>''"

definition link_only_tree :: "node list" where
  "link_only_tree =
     [Element ''html'' []
        [Element ''head'' []
           [Element ''link'' [(''rel'', ''import''), (''href'', ''a.html'')] [] (tags_at 1 1 None)]
           None,
         Element ''body'' [] [] None]
        None]"

text \<open>An inline script that holds one space: \<open><script> </script>\<close>.\<close>

definition blank_script_html :: string where
  "blank_script_html = ''<script> </script>''"

definition blank_script_tree :: "node list" where
  "blank_script_tree =
     [Element ''html'' []
        [Element ''head'' []
           [Element ''script'' [] [TextNode '' '' (Some (at 1 9))] (tags_at 1 1 (Some (at 1 10)))]
           None,
         Element ''body'' [] [] None]
        None]"

text \<open>
  A component whose template holds a link:
  \<open><dom-module id="x"><template><link rel="import" href="a.html"></template></dom-module>\<close>
\<close>

definition template_link_html :: string where
  "template_link_html =
     ''<dom-module id='' @ [DQ] @ ''x'' @ [DQ] @ ''><template>''
     @ ''<link rel='' @ [DQ] @ ''import'' @ [DQ] @ '' href='' @ [DQ] @ ''a.html'' @ [DQ] @ ''>''
     @ ''</template></dom-module>''"

definition template_link :: node where
  "template_link =
     Element ''link'' [(''rel'', ''import''), (''href'', ''a.html'')] [] (tags_at 1 30 None)"

definition template_link_tree :: "node list" where
  "template_link_tree =
     [Element ''html'' []
        [Element ''head'' [] [] None,
         Element ''body'' []
           [Element ''dom-module'' [(''id'', ''x'')]
              [Template [] [template_link] (tags_at 1 20 (Some (at 1 63)))]
              (tags_at 1 1 (Some (at 1 74)))]
           None]
        None]"

text \<open>
  A component node followed by an external script, both children of the document:
  \<open><dom-module id="x"></dom-module><script src="https://cdn.example.com/a.js"></script>\<close>
\<close>

definition sibling_html :: string where
  "sibling_html =
     ''<dom-module id='' @ [DQ] @ ''x'' @ [DQ] @ ''></dom-module>''
     @ ''<script src='' @ [DQ] @ ''https://cdn.example.com/a.js'' @ [DQ] @ ''></script>''"

definition sibling_script :: node where
  "sibling_script =
     Element ''script'' [(''src'', ''https://cdn.example.com/a.js'')] []
       (tags_at 1 33 (Some (at 1 76)))"

definition sibling_tree :: "node list" where
  "sibling_tree =
     [Element ''html'' []
        [Element ''head'' [] [] None,
         Element ''body'' []
           [Element ''dom-module'' [(''id'', ''x'')] [] (tags_at 1 1 (Some (at 1 20))),
            sibling_script]
           None]
        None]"

definition example_parse :: "string \<Rightarrow> node list" where
  "example_parse c =
     (if c = component_html then component_tree
      else if c = page_html then page_tree
      else if c = nested_html then nested_tree
      else if c = empty_script_html then empty_script_tree
      else if c = empty_src_html then empty_src_tree
      else if c = unclosed_script_html then unclosed_script_tree
      else if c = link_only_html then link_only_tree
      else if c = blank_script_html then blank_script_tree
      else if c = template_link_html then template_link_tree
      else if c = sibling_html then sibling_tree
      else [])"

definition example_lib :: lib where
  "example_lib =
     \<lparr>parse = example_parse, serialize = example_serialize, minify = (\<lambda>s. s),
      tokenize = example_tokenize, url_parse = example_url_parse,
      path_dirname = example_dirname, path_join = example_join\<rparr>"

definition no_options :: options where
  "no_options =
     \<lparr>ignoreLinks = None, ignoreLinksFromPartialMatches = None, ignorePathReWrite = None\<rparr>"

section \<open>Helpers: strings, arrays and trees\<close>

lemma indexOf_ge0_iff: "indexOf h p \<ge> 0 \<longleftrightarrow> sublist p h"
proof (induction h)
  case Nil
  then show ?case by simp
next
  case (Cons c cs)
  have pre: "take (length p) (c # cs) = p \<longleftrightarrow> prefix p (c # cs)"
    by (metis append_eq_conv_conj prefix_def)
  show ?case
  proof (cases "prefix p (c # cs)")
    case True
    then show ?thesis using pre by (auto simp: Let_def)
  next
    case False
    then have "p \<noteq> []" by auto
    then have "sublist p (c # cs) \<longleftrightarrow> sublist p cs"
      using False by (simp add: sublist_Cons_right)
    with Cons False pre show ?thesis by (auto simp: Let_def)
  qed
qed

lemma arr_indexOf_neg_iff: "arr_indexOf xs x < 0 \<longleftrightarrow> x \<notin> set xs"
  by (induction xs) (auto simp: Let_def)

lemma hasTagName_strip [simp]: "hasTagName t (strip p n) = hasTagName t n"
  by (cases n) simp_all

lemma getAttribute_strip [simp]: "getAttribute (strip p n) k = getAttribute n k"
  by (cases n) simp_all

lemma script_removed_strip [simp]: "script_removed L (strip p n) = script_removed L n"
  by (simp add: script_removed_def)















text \<open>
  What removal keeps: the nodes of the result are the remaining nodes, each with its
  name, attributes and location, and with the remaining ones of its children.
\<close>

lemma nodeName_strip [simp]: "nodeName (strip p n) = nodeName n"
  by (cases n) simp_all

lemma elem_location_strip [simp]: "elem_location (strip p n) = elem_location n"
  by (cases n) simp_all












section \<open>The link pass\<close>

lemma link_path_cases:
  "href \<noteq> [] \<Longrightarrow>
     link_path L P href =
       (if \<exists>p\<in>set (or_empty (ignorePathReWrite (opts P))). sublist p href
        then href
        else path_join L (path_dirname L (currentFilePath P)) href)"
  unfolding link_path_def Let_def
  by (auto simp: filter_empty_conv indexOf_ge0_iff)

lemma links_step_cases:
  "links_step L P acc n =
     (let href = or_empty (getAttribute n ''href'')
      in if href = [] \<or> href \<in> set (or_empty (ignoreLinks (opts P)))
              \<or> (\<exists>p\<in>set (or_empty (ignoreLinksFromPartialMatches (opts P))). sublist p href)
         then acc
         else acc\<lparr>source := source acc @ import_stmt (link_path L P href),
                  lineCount := lineCount acc + 2\<rparr>)"
  unfolding links_step_def Let_def
  by (auto simp: filter_empty_conv indexOf_ge0_iff arr_indexOf_neg_iff)

text \<open>
  Claim C6. For a non-empty \<open>href\<close> the import path is the \<open>href\<close> itself when it contains
  an \<open>ignorePathReWrite\<close> entry as a substring, and the directory of \<open>currentFilePath\<close>
  joined with the \<open>href\<close> otherwise; a link node that contributes to the output
  contributes the import statement of that path.
\<close>
theorem link_import_path:
  assumes "href \<noteq> []"
  shows "link_path L P href =
           (if \<exists>p\<in>set (or_empty (ignorePathReWrite (opts P))). sublist p href
            then href
            else path_join L (path_dirname L (currentFilePath P)) href)
       \<and> (or_empty (getAttribute n ''href'') = href \<and> links_step L P acc n \<noteq> acc \<longrightarrow>
            source (links_step L P acc n) =
              source acc @ [NL] @ ''import '' @ [SQ] @ link_path L P href @ [SQ] @ '';'' @ [NL])"
  using link_path_cases [OF assms, of L P]
  by (auto simp: links_step_cases import_stmt_def Let_def)

theorem link_import_path_witness:
  "link_path example_lib
     \<lparr>content = page_html, opts = no_options, currentFilePath = ''/proj/src/foo.html''\<rparr>
     ''x/y.html'' = ''/proj/src/x/y.html''
   \<and> link_path example_lib
     \<lparr>content = page_html,
      opts = \<lparr>ignoreLinks = None, ignoreLinksFromPartialMatches = None,
              ignorePathReWrite = Some [''x/'']\<rparr>,
      currentFilePath = ''/proj/src/foo.html''\<rparr>
     ''x/y.html'' = ''x/y.html''
   \<and> source (links_step example_lib
             \<lparr>content = page_html, opts = no_options, currentFilePath = ''/proj/src/foo.html''\<rparr>
             \<lparr>source = [], lineCount = 0\<rparr> page_link)
     = [NL] @ ''import '' @ [SQ] @ ''/proj/src/x/y.html'' @ [SQ] @ '';'' @ [NL]"
proof -
  let ?P1 = "\<lparr>content = page_html, opts = no_options, currentFilePath = ''/proj/src/foo.html''\<rparr>"
  let ?P2 = "\<lparr>content = page_html,
              opts = \<lparr>ignoreLinks = None, ignoreLinksFromPartialMatches = None,
                      ignorePathReWrite = Some [''x/'']\<rparr>,
              currentFilePath = ''/proj/src/foo.html''\<rparr>"
  let ?acc = "\<lparr>source = [], lineCount = 0\<rparr>"
  have h: "''x/y.html'' \<noteq> []" by simp
  note r1 = link_import_path [OF h, of example_lib ?P1 page_link ?acc]
  note r2 = link_import_path [OF h, of example_lib ?P2 page_link ?acc]
  have c: "or_empty (getAttribute page_link ''href'') = ''x/y.html''
           \<and> links_step example_lib ?P1 ?acc page_link \<noteq> ?acc"
    by code_simp
  have a: "link_path example_lib ?P1 ''x/y.html'' = ''/proj/src/x/y.html''"
    unfolding r1 [THEN conjunct1] by code_simp
  have b: "link_path example_lib ?P2 ''x/y.html'' = ''x/y.html''"
    unfolding r2 [THEN conjunct1] by code_simp
  have d: "source (links_step example_lib ?P1 ?acc page_link)
     = [NL] @ ''import '' @ [SQ] @ ''/proj/src/x/y.html'' @ [SQ] @ '';'' @ [NL]"
    unfolding r1 [THEN conjunct2, THEN mp, OF c] a by simp
  from a b d show ?thesis by blast
qed



text \<open>
  The link pass as a whole, and the older loader's: without partial matches the two
  emit the same text.
\<close>

lemma legacy_links_step_eq:
  "or_empty (ignoreLinksFromPartialMatches (opts P)) = [] \<Longrightarrow>
     source (links_step L P acc n) = legacy_links_step L P (source acc) n"
  by (simp add: links_step_def legacy_links_step_def Let_def)

lemma legacy_links_eq:
  assumes "or_empty (ignoreLinksFromPartialMatches (opts P)) = []"
  shows "source (links L P) = legacy_links L P"
proof -
  have "source (foldl (links_step L P) acc ns) = foldl (legacy_links_step L P) (source acc) ns"
    for acc ns
    by (induction ns arbitrary: acc) (simp_all add: legacy_links_step_eq [OF assms])
  then show ?thesis by (simp add: links_def legacy_links_def Let_def)
qed

lemma links_lineCount:
  "lineCount (foldl (links_step L P) acc ns)
     = lineCount acc
       + 2 * int (length (filter
           (\<lambda>n. \<not> (or_empty (getAttribute n ''href'') = []
                   \<or> or_empty (getAttribute n ''href'') \<in> set (or_empty (ignoreLinks (opts P)))
                   \<or> (\<exists>p\<in>set (or_empty (ignoreLinksFromPartialMatches (opts P))).
                          sublist p (or_empty (getAttribute n ''href''))))) ns))"
proof (induction ns arbitrary: acc)
  case Nil
  show ?case by simp
next
  case (Cons n ns)
  show ?case
    unfolding foldl_Cons Cons.IH [of "links_step L P acc n"]
    by (simp add: links_step_cases Let_def)
qed

section \<open>The script pass\<close>








text \<open>
  Claim C3. A script node is skipped without any change of the emitter state exactly
  when its \<open>src\<close> is non-empty and parses with a protocol and slashes (external); with a
  non-empty \<open>src\<close> that lacks either (local) the import of the directory of
  \<open>currentFilePath\<close> joined with \<open>src\<close> is appended between newlines and the line
  offset grows by 2; without a \<open>src\<close> (inline) the serialized content is tokenized, a
  tokenizer error ends the pass, and a successful step has appended the content
  between newlines and holds a source-map generator.
\<close>
theorem script_classification:
  fixes L P st n
  defines "src \<equiv> or_empty (getAttribute n ''src'')"
  defines "absolute \<equiv> truthy (protocol (url_parse L src)) \<and> slashes (url_parse L src)"
  shows "(src \<noteq> [] \<and> absolute \<longleftrightarrow> scripts_step L P st n = Inr st)
     \<and> (src \<noteq> [] \<and> \<not> absolute \<longrightarrow>
          scripts_step L P st n =
            Inr (st\<lparr>em_source := em_source st @ [NL] @ ''import '' @ [SQ]
                       @ path_join L (path_dirname L (currentFilePath P)) src
                       @ [SQ] @ '';'' @ [NL],
                    lineOffset := lineOffset st + 2\<rparr>))
     \<and> (src = [] \<longrightarrow>
          (case tokenize L (serialize L (as_parent n)) of
             Inl e \<Rightarrow> scripts_step L P st n = Inl e
           | Inr toks \<Rightarrow>
               (\<forall>st'. scripts_step L P st n = Inr st' \<longrightarrow>
                  em_source st' = em_source st @ [NL] @ serialize L (as_parent n) @ [NL]
                  \<and> sourceMapGenerator st' \<noteq> None)))"
proof -
  have neq: "st\<lparr>em_source := em_source st @ x # xs, lineOffset := k\<rparr> \<noteq> st" for x xs k
    by (metis (no_types) append_Nil2 emitter.select_convs(1) emitter.surjective
        emitter.update_convs(1) emitter.update_convs(2) list.distinct(1) same_append_eq)
  have neq2: "st\<lparr>em_source := em_source st @ x # xs, lineOffset := k, sourceMapGenerator := g\<rparr> \<noteq> st" for x xs k g
    by (metis (no_types) append_Nil2 emitter.select_convs(1) emitter.surjective
        emitter.update_convs(1) emitter.update_convs(2) emitter.update_convs(3) list.distinct(1) same_append_eq)
  show ?thesis
    unfolding src_def absolute_def scripts_step_def Let_def import_stmt_def
    using neq neq2
    by (auto split: sum.splits list.splits option.splits)
qed

theorem script_classification_witness:
  "scripts_step example_lib
     \<lparr>content = page_html, opts = no_options, currentFilePath = ''/proj/src/foo.html''\<rparr>
     \<lparr>em_source = [], lineOffset = 5, sourceMapGenerator = None\<rparr> cdn_script
     = Inr \<lparr>em_source = [], lineOffset = 5, sourceMapGenerator = None\<rparr>
   \<and> scripts_step example_lib
     \<lparr>content = page_html, opts = no_options, currentFilePath = ''/proj/src/foo.html''\<rparr>
     \<lparr>em_source = [], lineOffset = 5, sourceMapGenerator = None\<rparr> local_script
     = Inr \<lparr>em_source = [NL] @ ''import '' @ [SQ] @ ''/proj/src/b.js'' @ [SQ] @ '';'' @ [NL],
            lineOffset = 7, sourceMapGenerator = None\<rparr>
   \<and> (\<exists>st'. scripts_step example_lib
     \<lparr>content = page_html, opts = no_options, currentFilePath = ''/proj/src/foo.html''\<rparr>
     \<lparr>em_source = [], lineOffset = 5, sourceMapGenerator = None\<rparr> inline_script = Inr st'
        \<and> em_source st' = [NL] @ ''var a;'' @ [NL] @ ''b();'' @ [NL]
        \<and> sourceMapGenerator st' \<noteq> None)"
proof -
  let ?P = "\<lparr>content = page_html, opts = no_options, currentFilePath = ''/proj/src/foo.html''\<rparr>"
  let ?st = "\<lparr>em_source = [], lineOffset = 5, sourceMapGenerator = None\<rparr>"
  have c1: "or_empty (getAttribute cdn_script ''src'') \<noteq> []
     \<and> truthy (protocol (url_parse example_lib (or_empty (getAttribute cdn_script ''src''))))
     \<and> slashes (url_parse example_lib (or_empty (getAttribute cdn_script ''src'')))"
    by code_simp
  from script_classification [of cdn_script example_lib ?P ?st] c1
  have a: "scripts_step example_lib ?P ?st cdn_script = Inr ?st" by blast
  have c2: "or_empty (getAttribute local_script ''src'') \<noteq> []
     \<and> \<not> (truthy (protocol (url_parse example_lib (or_empty (getAttribute local_script ''src''))))
          \<and> slashes (url_parse example_lib (or_empty (getAttribute local_script ''src''))))"
    by code_simp
  from script_classification [of local_script example_lib ?P ?st] c2
  have "scripts_step example_lib ?P ?st local_script =
      Inr (?st\<lparr>em_source := em_source ?st @ [NL] @ ''import '' @ [SQ]
                   @ path_join example_lib (path_dirname example_lib (currentFilePath ?P))
                       (or_empty (getAttribute local_script ''src''))
                   @ [SQ] @ '';'' @ [NL],
                lineOffset := lineOffset ?st + 2\<rparr>)"
    by blast
  also have "\<dots> = Inr \<lparr>em_source = [NL] @ ''import '' @ [SQ] @ ''/proj/src/b.js'' @ [SQ] @ '';'' @ [NL],
            lineOffset = 7, sourceMapGenerator = None\<rparr>"
    by code_simp
  finally have b: "scripts_step example_lib ?P ?st local_script
     = Inr \<lparr>em_source = [NL] @ ''import '' @ [SQ] @ ''/proj/src/b.js'' @ [SQ] @ '';'' @ [NL],
            lineOffset = 7, sourceMapGenerator = None\<rparr>" .
  have c3: "or_empty (getAttribute inline_script ''src'') = []" by code_simp
  have ok: "\<not> isl (tokenize example_lib (serialize example_lib (as_parent inline_script)))"
    by code_simp
  have ok2: "\<not> isl (scripts_step example_lib ?P ?st inline_script)" by code_simp
  then obtain st' where st': "scripts_step example_lib ?P ?st inline_script = Inr st'"
    by (cases "scripts_step example_lib ?P ?st inline_script") auto
  from ok obtain toks where
    toks: "tokenize example_lib (serialize example_lib (as_parent inline_script)) = Inr toks"
    by (cases "tokenize example_lib (serialize example_lib (as_parent inline_script))") auto
  from script_classification [of inline_script example_lib ?P ?st] c3 toks st'
  have "em_source st' = em_source ?st @ [NL] @ serialize example_lib (as_parent inline_script) @ [NL]
        \<and> sourceMapGenerator st' \<noteq> None"
    by simp
  moreover have "em_source ?st @ [NL] @ serialize example_lib (as_parent inline_script) @ [NL]
        = [NL] @ ''var a;'' @ [NL] @ ''b();'' @ [NL]"
    by code_simp
  ultimately have c: "\<exists>st'. scripts_step example_lib ?P ?st inline_script = Inr st'
        \<and> em_source st' = [NL] @ ''var a;'' @ [NL] @ ''b();'' @ [NL]
        \<and> sourceMapGenerator st' \<noteq> None"
    using st' by auto
  from a b c show ?thesis by blast
qed


lemma scripts_step_source_legacy:
  "scripts_step L P st n = Inr st' \<Longrightarrow> em_source st' = legacy_scripts_step L P (em_source st) n"
  unfolding scripts_step_def legacy_scripts_step_def Let_def
  by (auto split: if_splits sum.splits list.splits option.splits)

lemma forEach_source_legacy:
  "forEach (scripts_step L P) st ns = Inr st'
     \<Longrightarrow> em_source st' = foldl (legacy_scripts_step L P) (em_source st) ns"
proof (induction ns arbitrary: st)
  case Nil
  then show ?case by simp
next
  case (Cons n ns)
  then obtain st1 where s1: "scripts_step L P st n = Inr st1"
    and rest: "forEach (scripts_step L P) st1 ns = Inr st'"
    by (auto split: sum.splits)
  show ?case
    using Cons.IH [OF rest] scripts_step_source_legacy [OF s1] by simp
qed

lemma legacy_scripts_step_append:
  "legacy_scripts_step L P (s @ t) n = s @ legacy_scripts_step L P t n"
  by (simp add: legacy_scripts_step_def Let_def)

lemma foldl_legacy_scripts_append:
  "foldl (legacy_scripts_step L P) (s @ t) ns = s @ foldl (legacy_scripts_step L P) t ns"
  by (induction ns arbitrary: t) (simp_all add: legacy_scripts_step_append)

lemma foldl_legacy_scripts_start:
  "foldl (legacy_scripts_step L P) s ns = s @ foldl (legacy_scripts_step L P) [] ns"
  using foldl_legacy_scripts_append [of L P s "[]" ns] by simp











text \<open>
  Claim C2. \<open>process\<close> is the script pass seeded with the link text followed by the body
  text and with the sum of their line counts; the exported function hands on that
  pass's text and source map, or its exception. When it returns, the code is the link
  text, then the body text, then what the older text-only script pass emits.
\<close>
theorem process_order:
  fixes L c l
  defines "P \<equiv> new_ProcessHtml c l"
  shows "process L P =
           scripts L P (source (links L P) @ source (domModule L P))
             (lineCount (links L P) + lineCount (domModule L P))
       \<and> entry L c l =
           (case scripts L P (source (links L P) @ source (domModule L P))
                   (lineCount (links L P) + lineCount (domModule L P)) of
              Inl e \<Rightarrow> Inl e
            | Inr r \<Rightarrow> Inr (ret_source r, sourceMap r))
       \<and> (\<forall>code sm. entry L c l = Inr (code, sm) \<longrightarrow>
             code = source (links L P) @ source (domModule L P) @ legacy_scripts L P)"
proof -
  have p: "process L P =
           scripts L P (source (links L P) @ source (domModule L P))
             (lineCount (links L P) + lineCount (domModule L P))"
    by (simp add: process_def Let_def)
  have e: "entry L c l = (case process L P of Inl e \<Rightarrow> Inl e
            | Inr r \<Rightarrow> Inr (ret_source r, sourceMap r))"
    by (simp add: entry_def P_def)
  have "code = source (links L P) @ source (domModule L P) @ legacy_scripts L P"
    if "entry L c l = Inr (code, sm)" for code sm
  proof -
    from that e p obtain r where
      r: "scripts L P (source (links L P) @ source (domModule L P))
             (lineCount (links L P) + lineCount (domModule L P)) = Inr r"
      and code: "code = ret_source r"
      by (auto split: sum.splits)
    from r obtain st where
      fe: "forEach (scripts_step L P)
             \<lparr>em_source = source (links L P) @ source (domModule L P),
              lineOffset = lineCount (links L P) + lineCount (domModule L P),
              sourceMapGenerator = None\<rparr>
             (queryAll (removeFakeRootElements (parse L (content P))) scriptsPred) = Inr st"
      and rs: "ret_source r = em_source st"
      unfolding scripts_def Let_def by (auto split: sum.splits)
    from forEach_source_legacy [OF fe] rs code
    have "code = foldl (legacy_scripts_step L P)
                   (source (links L P) @ source (domModule L P))
                   (queryAll (removeFakeRootElements (parse L (content P))) scriptsPred)"
      by simp
    then show ?thesis
      by (subst (asm) foldl_legacy_scripts_start) (simp add: legacy_scripts_def Let_def)
  qed
  with p e show ?thesis by simp
qed

theorem process_order_witness:
  "\<not> isl (entry example_lib component_html \<lparr>getOptions = None, resourcePath = ''/p/f.html''\<rparr>)
   \<and> fst (projr (entry example_lib component_html
                    \<lparr>getOptions = None, resourcePath = ''/p/f.html''\<rparr>))
     = [NL] @ ''import '' @ [SQ] @ ''/p/a.html'' @ [SQ] @ '';'' @ [NL]
       @ [NL] @ ''const RegisterHtmlTemplate = require('' @ [SQ]
       @ ''polymer-webpack-loader/register-html-template'' @ [SQ] @ '');'' @ [NL]
       @ ''RegisterHtmlTemplate.register('' @ [SQ]
       @ ''<dom-module id='' @ [DQ] @ ''x'' @ [DQ] @ ''></dom-module>'' @ [SQ] @ '');'' @ [NL]
       @ [NL] @ ''var a=1;'' @ [NL]"
proof -
  let ?l = "\<lparr>getOptions = None, resourcePath = ''/p/f.html''\<rparr>"
  let ?P = "new_ProcessHtml component_html ?l"
  have ok: "\<not> isl (entry example_lib component_html ?l)" by code_simp
  then have e: "entry example_lib component_html ?l
      = Inr (fst (projr (entry example_lib component_html ?l)),
             snd (projr (entry example_lib component_html ?l)))"
    by (cases "entry example_lib component_html ?l") auto
  note t = process_order [of example_lib component_html ?l]
  from t e have "fst (projr (entry example_lib component_html ?l))
      = source (links example_lib ?P) @ source (domModule example_lib ?P)
        @ legacy_scripts example_lib ?P"
    by blast
  also have "\<dots> = [NL] @ ''import '' @ [SQ] @ ''/p/a.html'' @ [SQ] @ '';'' @ [NL]
       @ [NL] @ ''const RegisterHtmlTemplate = require('' @ [SQ]
       @ ''polymer-webpack-loader/register-html-template'' @ [SQ] @ '');'' @ [NL]
       @ ''RegisterHtmlTemplate.register('' @ [SQ]
       @ ''<dom-module id='' @ [DQ] @ ''x'' @ [DQ] @ ''></dom-module>'' @ [SQ] @ '');'' @ [NL]
       @ [NL] @ ''var a=1;'' @ [NL]"
    by code_simp
  finally show ?thesis using ok by blast
qed



text \<open>
  With the libraries as functions of which only the tokenizer can fail, the script pass
  returns exactly when every script node is readable; otherwise it throws the
  tokenizer's error, or a TypeError at an inline script the tokenizer accepted.
\<close>

lemma scripts_step_returns:
  "(\<exists>st'. scripts_step L P st n = Inr st') \<longleftrightarrow> readable_script L n"
  unfolding scripts_step_def readable_script_def Let_def
  by (auto split: sum.splits list.splits option.splits)

lemma scripts_step_error:
  "scripts_step L P st n = Inl e \<Longrightarrow>
     or_empty (getAttribute n ''src'') = []
     \<and> (tokenize L (serialize L (as_parent n)) = Inl e
        \<or> e = TypeError \<and> \<not> isl (tokenize L (serialize L (as_parent n))))"
  unfolding scripts_step_def Let_def
  by (auto split: sum.splits list.splits option.splits if_splits)

lemma forEach_returns:
  "(\<exists>st'. forEach (scripts_step L P) st ns = Inr st') \<longleftrightarrow> (\<forall>n\<in>set ns. readable_script L n)"
proof (induction ns arbitrary: st)
  case Nil
  show ?case by simp
next
  case (Cons n ns)
  show ?case
  proof (cases "scripts_step L P st n")
    case (Inl e)
    then have "\<not> readable_script L n"
      using scripts_step_returns [of L P st n] by simp
    with Inl show ?thesis by simp
  next
    case (Inr st1)
    then have "readable_script L n"
      using scripts_step_returns [of L P st n] by auto
    with Inr Cons.IH [of st1] show ?thesis by simp
  qed
qed

lemma scripts_returns:
  "(\<exists>r. scripts L P initialSource initialLineOffset = Inr r) \<longleftrightarrow>
     (\<forall>n\<in>set (queryAll (removeFakeRootElements (parse L (content P))) scriptsPred).
        readable_script L n)"
proof -
  let ?ns = "queryAll (removeFakeRootElements (parse L (content P))) scriptsPred"
  let ?st0 = "\<lparr>em_source = initialSource, lineOffset = initialLineOffset,
               sourceMapGenerator = None\<rparr>"
  have "(\<exists>r. scripts L P initialSource initialLineOffset = Inr r)
          \<longleftrightarrow> (\<exists>st'. forEach (scripts_step L P) ?st0 ?ns = Inr st')"
    unfolding scripts_def Let_def by (auto split: sum.splits)
  then show ?thesis by (simp add: forEach_returns)
qed

lemma forEach_error:
  "forEach (scripts_step L P) st ns = Inl e \<Longrightarrow>
     \<exists>n\<in>set ns. or_empty (getAttribute n ''src'') = []
        \<and> (tokenize L (serialize L (as_parent n)) = Inl e
           \<or> e = TypeError \<and> \<not> isl (tokenize L (serialize L (as_parent n)))
              \<and> \<not> readable_script L n)"
proof (induction ns arbitrary: st)
  case Nil
  then show ?case by simp
next
  case (Cons n ns)
  show ?case
  proof (cases "scripts_step L P st n")
    case (Inl e')
    with Cons.prems have "e' = e" by simp
    with Inl scripts_step_error [of L P st n e] scripts_step_returns [of L P st n]
    show ?thesis by auto
  next
    case (Inr st1)
    with Cons.prems have "forEach (scripts_step L P) st1 ns = Inl e" by simp
    from Cons.IH [OF this] show ?thesis by auto
  qed
qed

section \<open>The body pass\<close>
















section \<open>An inline script without text\<close>

text \<open>
  Claim C9 fails on the code. For \<open><script></script>\<close> the tokenizer accepts the empty
  text and returns no token, and reading \<open>childNodes[0].__location\<close> then throws a
  TypeError; an inline script without an end tag throws one at \<open>__location.endTag.line\<close>.
  The older loader returns two newlines for the empty script.
\<close>
theorem empty_inline_script_throws:
  "entry example_lib empty_script_html \<lparr>getOptions = None, resourcePath = ''/p/f.html''\<rparr>
     = Inl TypeError
   \<and> tokenize example_lib (serialize example_lib (''script'', [])) = Inr []
   \<and> entry example_lib unclosed_script_html \<lparr>getOptions = None, resourcePath = ''/p/f.html''\<rparr>
     = Inl TypeError
   \<and> legacy_process example_lib
        \<lparr>content = empty_script_html, opts = no_options, currentFilePath = ''/p/f.html''\<rparr>
     = [NL, NL]"
  by code_simp

end
